theory Spec2Isabelle
  imports Main
begin

section \<open>Python values, dictionaries and exceptions\<close>

text \<open>
  The account profiles of \<^verbatim>\<open>MailTransmitter\<close> are plain Python dictionaries read from
  the configuration store; their values are strings, booleans and integers.  A missing key
  raises \<^verbatim>\<open>KeyError\<close>, an empty selection raises \<^verbatim>\<open>IndexError\<close>; every raise of the
  source is a value of \<open>py_error\<close>.
\<close>

datatype pyval = PStr string | PBool bool | PInt int | PNone

type_synonym pydict = "string \<rightharpoonup> pyval"

datatype py_error =
    IndexError
  | KeyError string
  | AttributeError string
  | SocketTimeout string
  | OtherError string

text \<open>Python truthiness, as used by \<^verbatim>\<open>if config['tls']:\<close>.\<close>

fun truthy :: "pyval \<Rightarrow> bool" where
  "truthy (PStr s) = (s \<noteq> [])"
| "truthy (PBool b) = b"
| "truthy (PInt i) = (i \<noteq> 0)"
| "truthy PNone = False"

text \<open>\<^verbatim>\<open>d[k]\<close> and \<^verbatim>\<open>d.get(k, default)\<close>.\<close>

definition dict_item :: "pydict \<Rightarrow> string \<Rightarrow> py_error + pyval" where
  "dict_item d k = (case d k of None \<Rightarrow> Inl (KeyError k) | Some v \<Rightarrow> Inr v)"

definition dict_get :: "pydict \<Rightarrow> string \<Rightarrow> pyval \<Rightarrow> pyval" where
  "dict_get d k dflt = (case d k of None \<Rightarrow> dflt | Some v \<Rightarrow> v)"

text \<open>\<^verbatim>\<open>str(v)\<close> for the values above.\<close>

function str_nat :: "nat \<Rightarrow> string" where
  "str_nat n =
     (if n < 10 then [''0123456789'' ! n]
      else str_nat (n div 10) @ [''0123456789'' ! (n mod 10)])"
  by pat_completeness auto
termination
  by (relation "measure id") auto

fun py_str :: "pyval \<Rightarrow> string" where
  "py_str (PStr s) = s"
| "py_str (PBool b) = (if b then ''True'' else ''False'')"
| "py_str (PInt i) = (if i < 0 then CHR ''-'' # str_nat (nat (- i)) else str_nat (nat i))"
| "py_str PNone = ''None''"

text \<open>\<^verbatim>\<open>s.split(' ')\<close>: a cut at every single space; the result is never empty.\<close>

fun split_on :: "char \<Rightarrow> string \<Rightarrow> string list" where
  "split_on c [] = [[]]"
| "split_on c (x # xs) =
     (if x = c then [] # split_on c xs
      else (case split_on c xs of
              [] \<Rightarrow> [[x]]
            | w # ws \<Rightarrow> (x # w) # ws))"

section \<open>Requests, configuration and messages\<close>

text \<open>
  The \<^verbatim>\<open>send_mail\<close> event carries \<^verbatim>\<open>to_address\<close>, \<^verbatim>\<open>subject\<close>, \<^verbatim>\<open>text\<close> and
  \<^verbatim>\<open>account\<close>; the component's configuration carries \<^verbatim>\<open>mail_send\<close>,
  \<^verbatim>\<open>default_account\<close> and the ordered list \<^verbatim>\<open>accounts\<close>.
\<close>

record send_request =
  to_address :: string
  subject :: string
  body_text :: string
  account :: string

record mail_config =
  mail_send :: pyval
  default_account :: string
  accounts :: "pydict list"

record transmitter =
  config :: mail_config
  hostname :: string

text \<open>
  \<^verbatim>\<open>MIMEText(event.text)\<close> with the headers the dispatcher assigns, in assignment order.
\<close>

record mime_text =
  payload :: string
  headers :: "(string \<times> string) list"

definition set_header :: "string \<Rightarrow> string \<Rightarrow> mime_text \<Rightarrow> mime_text" where
  "set_header k v m = m\<lparr>headers := headers m @ [(k, v)]\<rparr>"

section \<open>Account resolution\<close>

text \<open>
  \<^verbatim>\<open>list(filter(lambda account: account['name'] == account_name, self.config.accounts))\<close>:
  the whole registry is traversed, and an entry without a \<^verbatim>\<open>name\<close> raises.
\<close>

fun filter_accounts :: "string \<Rightarrow> pydict list \<Rightarrow> py_error + pydict list" where
  "filter_accounts n [] = Inr []"
| "filter_accounts n (a # as) =
     (case dict_item a ''name'' of
        Inl e \<Rightarrow> Inl e
      | Inr v \<Rightarrow>
          (case filter_accounts n as of
             Inl e \<Rightarrow> Inl e
           | Inr r \<Rightarrow> Inr (if v = PStr n then a # r else r)))"

definition account_name :: "mail_config \<Rightarrow> send_request \<Rightarrow> string" where
  "account_name cfg event =
     (if account event = ''default'' then default_account cfg else account event)"

definition resolve_account :: "mail_config \<Rightarrow> send_request \<Rightarrow> py_error + pydict" where
  "resolve_account cfg event =
     (case filter_accounts (account_name cfg event) (accounts cfg) of
        Inl e \<Rightarrow> Inl e
      | Inr [] \<Rightarrow> Inl IndexError
      | Inr (a # _) \<Rightarrow> Inr a)"

section \<open>The direct SMTP backend\<close>

text \<open>
  \<^verbatim>\<open>smtplib\<close> is outside the repository.  Each call the worker makes on it is an
  \<open>smtp_action\<close>; the library is a function answering an action either with the text of
  its return value or with the exception it raises.  \<open>SocketTimeout msg\<close> is
  \<^verbatim>\<open>socket.timeout\<close> with \<^verbatim>\<open>str(e) = msg\<close>, the only exception the worker catches.
\<close>

datatype smtp_action =
    Connect bool pyval pyval nat
  | StartTLS
  | Login pyval pyval
  | SendMessage mime_text
  | Quit

datatype reply = Returns string | Raises py_error

type_synonym smtp_lib = "smtp_action \<Rightarrow> reply"

text \<open>
  A part of the \<^verbatim>\<open>try\<close> body yields the library calls it made, the text it appended to
  \<^verbatim>\<open>log\<close>, and either the exception that ended it or a returned text.
\<close>

type_synonym step = "smtp_action list \<times> string \<times> (py_error + string)"

definition call_lib :: "smtp_lib \<Rightarrow> smtp_action \<Rightarrow> py_error + string" where
  "call_lib lib a = (case lib a of Raises e \<Rightarrow> Inl e | Returns r \<Rightarrow> Inr r)"

definition then_step :: "step \<Rightarrow> step \<Rightarrow> step" where
  "then_step s1 s2 =
     (case s1 of
        (t1, l1, Inl e) \<Rightarrow> (t1, l1, Inl e)
      | (t1, l1, Inr _) \<Rightarrow> (case s2 of (t2, l2, r) \<Rightarrow> (t1 @ t2, l1 @ l2, r)))"

text \<open>
  \<^verbatim>\<open>if config.get('ssl', True): server = SMTP_SSL(config['server'], port=config['port'], timeout=30)\<close>
  \<^verbatim>\<open>else: server = SMTP(config['server'], port=config['port'], timeout=30)\<close>
\<close>

definition connect_step :: "smtp_lib \<Rightarrow> pydict \<Rightarrow> step" where
  "connect_step lib cfg =
     (let use_ssl = truthy (dict_get cfg ''ssl'' (PBool True)) in
      case dict_item cfg ''server'' of
        Inl e \<Rightarrow> ([], [], Inl e)
      | Inr srv \<Rightarrow>
          (case dict_item cfg ''port'' of
             Inl e \<Rightarrow> ([], [], Inl e)
           | Inr prt \<Rightarrow>
               ([Connect use_ssl srv prt 30], [], call_lib lib (Connect use_ssl srv prt 30))))"

text \<open>\<^verbatim>\<open>if config['tls']: log += 'Starting TLS\n'; server.starttls()\<close>\<close>

definition tls_step :: "smtp_lib \<Rightarrow> pydict \<Rightarrow> step" where
  "tls_step lib cfg =
     (case dict_item cfg ''tls'' of
        Inl e \<Rightarrow> ([], [], Inl e)
      | Inr v \<Rightarrow>
          (if truthy v then ([StartTLS], ''Starting TLS\<newline>'', call_lib lib StartTLS)
           else ([], [], Inr [])))"

text \<open>
  \<^verbatim>\<open>if config['username'] != '': log += 'Logging in with ' + str(config['username']) + "\n";\<close>
  \<^verbatim>\<open>server.login(config['username'], config['password'])\<close>
  \<^verbatim>\<open>else: log += 'No username, trying anonymous access\n'\<close>
\<close>

definition login_step :: "smtp_lib \<Rightarrow> pydict \<Rightarrow> step" where
  "login_step lib cfg =
     (case dict_item cfg ''username'' of
        Inl e \<Rightarrow> ([], [], Inl e)
      | Inr u \<Rightarrow>
          (if u \<noteq> PStr [] then
             (case dict_item cfg ''password'' of
                Inl e \<Rightarrow> ([], ''Logging in with '' @ py_str u @ ''\<newline>'', Inl e)
              | Inr p \<Rightarrow>
                  ([Login u p], ''Logging in with '' @ py_str u @ ''\<newline>'',
                   call_lib lib (Login u p)))
           else ([], ''No username, trying anonymous access\<newline>'', Inr [])))"

text \<open>
  \<^verbatim>\<open>log += 'Sending Mail\n'; response_send = server.send_message(mail); server.quit()\<close>;
  the returned text is \<^verbatim>\<open>str(response_send)\<close>.
\<close>

definition send_step :: "smtp_lib \<Rightarrow> mime_text \<Rightarrow> step" where
  "send_step lib mail =
     (case call_lib lib (SendMessage mail) of
        Inl e \<Rightarrow> ([SendMessage mail], ''Sending Mail\<newline>'', Inl e)
      | Inr resp \<Rightarrow>
          (case call_lib lib Quit of
             Inl e \<Rightarrow> ([SendMessage mail, Quit], ''Sending Mail\<newline>'', Inl e)
           | Inr _ \<Rightarrow> ([SendMessage mail, Quit], ''Sending Mail\<newline>'', Inr resp)))"

definition smtp_session :: "smtp_lib \<Rightarrow> pydict \<Rightarrow> mime_text \<Rightarrow> step" where
  "smtp_session lib cfg mail =
     then_step (connect_step lib cfg)
       (then_step (tls_step lib cfg)
          (then_step (login_step lib cfg) (send_step lib mail)))"

text \<open>
  \<^verbatim>\<open>send_mail_worker(config, mail, event)\<close>: only \<^verbatim>\<open>timeout\<close> is caught; any other
  exception leaves the function.  The result pairs the library calls made with either the
  propagating exception or the returned triple \<^verbatim>\<open>(success, log, event)\<close>.
\<close>

type_synonym 'e outcome = "bool \<times> string \<times> 'e"

definition send_mail_worker ::
  "smtp_lib \<Rightarrow> pydict \<Rightarrow> mime_text \<Rightarrow> 'e \<Rightarrow> smtp_action list \<times> (py_error + 'e outcome)" where
  "send_mail_worker lib cfg mail event =
     (case smtp_session lib cfg mail of
        (tr, lg, Inr resp) \<Rightarrow> (tr, Inr (True, lg @ ''Server response:'' @ resp, event))
      | (tr, lg, Inl (SocketTimeout msg)) \<Rightarrow>
          (tr, Inr (False, lg @ ''Could not send email: '' @ msg @ ''\<newline>'', event))
      | (tr, lg, Inl e) \<Rightarrow> (tr, Inl e))"

section \<open>The dispatcher\<close>

text \<open>
  What \<^verbatim>\<open>MailTransmitter.send_mail\<close> does to the outside, in order: a log line, a run of
  the external process through \<^verbatim>\<open>run_process(cwd, args, stdin=mime_mail.as_string())\<close>
  (the effect carries the message whose serialisation is fed to standard input), or a
  \<^verbatim>\<open>task(send_mail_worker, account, mime_mail, event)\<close> fired on a channel.
\<close>

datatype loglevel = Verbose | Info | Error

datatype log_arg = LStr string | LMime mime_text

datatype effect =
    Log loglevel bool "log_arg list"
  | RunProcess string "pyval list" mime_text
  | FireTask pydict mime_text send_request string

text \<open>
  \<^verbatim>\<open>pystache.render\<close> and \<^verbatim>\<open>isomer.tool.run_process\<close> are imported from other
  packages; the dispatcher is modelled for any behaviour of the two.
\<close>

record externals =
  render_ext :: "pyval \<Rightarrow> pydict \<Rightarrow> py_error + string"
  run_process_ext :: "string \<Rightarrow> pyval list \<Rightarrow> mime_text \<Rightarrow> py_error + (pyval \<times> pyval)"

text \<open>
  \<^verbatim>\<open>mime_mail['From'] = render(account['mail_from'], {'server': account['server'],\<close>
  \<^verbatim>\<open>'hostname': self.hostname})\<close>
\<close>

definition render_from :: "externals \<Rightarrow> string \<Rightarrow> pydict \<Rightarrow> py_error + string" where
  "render_from ext host acct =
     (case dict_item acct ''mail_from'' of
        Inl e \<Rightarrow> Inl e
      | Inr tmpl \<Rightarrow>
          (case dict_item acct ''server'' of
             Inl e \<Rightarrow> Inl e
           | Inr srv \<Rightarrow>
               render_ext ext tmpl [''server'' \<mapsto> srv, ''hostname'' \<mapsto> PStr host]))"

definition build_message :: "send_request \<Rightarrow> string \<Rightarrow> mime_text" where
  "build_message event sender =
     set_header ''To'' (to_address event)
       (set_header ''From'' sender
          (set_header ''Subject'' (subject event)
             \<lparr>payload = body_text event, headers = []\<rparr>))"

text \<open>
  \<^verbatim>\<open>[account['sendmail_binary']] + account['sendmail_extra_arguments'].split(' ')\<close>
\<close>

definition sendmail_args :: "pydict \<Rightarrow> py_error + pyval list" where
  "sendmail_args acct =
     (case dict_item acct ''sendmail_binary'' of
        Inl e \<Rightarrow> Inl e
      | Inr bin \<Rightarrow>
          (case dict_item acct ''sendmail_extra_arguments'' of
             Inl e \<Rightarrow> Inl e
           | Inr (PStr s) \<Rightarrow> Inr (bin # map PStr (split_on CHR '' '' s))
           | Inr _ \<Rightarrow> Inl (AttributeError ''split'')))"

text \<open>The branch \<^verbatim>\<open>if account['use_sendmail']: ... else: ...\<close>.\<close>

definition deliver ::
  "externals \<Rightarrow> pydict \<Rightarrow> mime_text \<Rightarrow> send_request \<Rightarrow> effect list \<times> (py_error + unit)" where
  "deliver ext acct mail event =
     (case dict_item acct ''use_sendmail'' of
        Inl e \<Rightarrow> ([], Inl e)
      | Inr flag \<Rightarrow>
          (if truthy flag then
             (case sendmail_args acct of
                Inl e \<Rightarrow>
                  ([Log Info False [LStr ''Would now task sendmail to send the mail'']], Inl e)
              | Inr args \<Rightarrow>
                  ([Log Info False [LStr ''Would now task sendmail to send the mail''],
                    RunProcess [] args mail],
                   (case run_process_ext ext [] args mail of
                      Inl e \<Rightarrow> Inl e
                    | Inr _ \<Rightarrow> Inr ())))
           else ([FireTask acct mail event ''mail-transmit-workers''], Inr ())))"

definition send_mail ::
  "externals \<Rightarrow> transmitter \<Rightarrow> send_request \<Rightarrow> effect list \<times> (py_error + unit)" where
  "send_mail ext self event =
     (case resolve_account (config self) event of
        Inl e \<Rightarrow> ([], Inl e)
      | Inr acct \<Rightarrow>
          (case render_from ext (hostname self) acct of
             Inl e \<Rightarrow> ([], Inl e)
           | Inr sender \<Rightarrow>
               (let mail = build_message event sender in
                if mail_send (config self) = PBool True then
                  (case deliver ext acct mail event of
                     (effs, r) \<Rightarrow>
                       (Log Verbose False [LStr ''MimeMail:'', LMime mail]
                          # Log Info False [LStr ''Sending mail to'', LStr (to_address event)]
                          # effs, r))
                else
                  ([Log Verbose False [LStr ''MimeMail:'', LMime mail],
                    Log Info True
                      [LStr ''Not sending mail, here it is for debugging info:'', LMime mail]],
                   Inr ()))))"

section \<open>The address renderer\<close>

text \<open>
  Modelled from the spec: \<^verbatim>\<open>render\<close> is imported from the \<^verbatim>\<open>pystache\<close> package, whose
  code is not part of the repository.  The specification describes it as
  \<^verbatim>\<open>render(template, {server, hostname}) -> string\<close>, a pure substitution of named
  placeholders in which unknown placeholders are left as literal text.  A placeholder is
  \<^verbatim>\<open>{{name}}\<close>; \<open>render_text\<close> scans ordinary text, \<open>render_tag\<close> collects the name
  of an opened placeholder up to the closing braces.
\<close>

fun render_text :: "(string \<rightharpoonup> string) \<Rightarrow> string \<Rightarrow> string"
  and render_tag :: "(string \<rightharpoonup> string) \<Rightarrow> string \<Rightarrow> string \<Rightarrow> string" where
  "render_text vs [] = []"
| "render_text vs [c] = [c]"
| "render_text vs (c # d # cs) =
     (if c = CHR ''{'' \<and> d = CHR ''{'' then render_tag vs [] cs
      else c # render_text vs (d # cs))"
| "render_tag vs acc [] = ''{{'' @ acc"
| "render_tag vs acc [c] = ''{{'' @ acc @ [c]"
| "render_tag vs acc (c # d # cs) =
     (if c = CHR ''}'' \<and> d = CHR ''}'' then
        (case vs acc of Some v \<Rightarrow> v | None \<Rightarrow> ''{{'' @ acc @ ''}}'') @ render_text vs cs
      else render_tag vs (acc @ [c]) (d # cs))"

definition render :: "string \<Rightarrow> (string \<rightharpoonup> string) \<Rightarrow> string" where
  "render template vars = render_text vars template"

text \<open>
  Modelled from the spec: the renderer as the dispatcher calls it, on a template value and
  a context dictionary whose values are shown as text.
\<close>

fun pystache_render :: "pyval \<Rightarrow> pydict \<Rightarrow> py_error + string" where
  "pystache_render (PStr t) ctx = Inr (render t (\<lambda>k. map_option py_str (ctx k)))"
| "pystache_render v ctx = Inl (OtherError ''render'')"

section \<open>Splitting on whitespace, as the specification words it\<close>




section \<open>Example registries, requests and servers\<close>

definition acct_localhost :: pydict where
  "acct_localhost =
     [''name'' \<mapsto> PStr ''localhost'', ''server'' \<mapsto> PStr ''localhost'', ''port'' \<mapsto> PInt 25,
      ''ssl'' \<mapsto> PBool False, ''tls'' \<mapsto> PBool False, ''username'' \<mapsto> PStr [],
      ''mail_from'' \<mapsto> PStr (''bot@'' @ ''{{server}}''), ''use_sendmail'' \<mapsto> PBool False]"

definition acct_relay :: pydict where
  "acct_relay =
     [''name'' \<mapsto> PStr ''relay'', ''server'' \<mapsto> PStr ''mail.example.org'', ''port'' \<mapsto> PInt 587,
      ''ssl'' \<mapsto> PBool False, ''tls'' \<mapsto> PBool True, ''username'' \<mapsto> PStr ''bot'',
      ''password'' \<mapsto> PStr ''secret'', ''mail_from'' \<mapsto> PStr (''bot@'' @ ''{{server}}''),
      ''use_sendmail'' \<mapsto> PBool False]"

definition acct_sendmail :: "string \<Rightarrow> pydict" where
  "acct_sendmail arguments =
     [''name'' \<mapsto> PStr ''local'', ''server'' \<mapsto> PStr ''localhost'',
      ''mail_from'' \<mapsto> PStr (''bot@'' @ ''{{hostname}}''), ''use_sendmail'' \<mapsto> PBool True,
      ''sendmail_binary'' \<mapsto> PStr ''/usr/bin/sendmail'',
      ''sendmail_extra_arguments'' \<mapsto> PStr arguments]"

definition acct_duplicate :: pydict where
  "acct_duplicate =
     [''name'' \<mapsto> PStr ''localhost'', ''server'' \<mapsto> PStr ''backup.example.org'',
      ''port'' \<mapsto> PInt 465, ''ssl'' \<mapsto> PBool True, ''tls'' \<mapsto> PBool False,
      ''username'' \<mapsto> PStr [], ''mail_from'' \<mapsto> PStr (''bot@'' @ ''{{server}}''),
      ''use_sendmail'' \<mapsto> PBool True]"

definition example_transmitter :: "pyval \<Rightarrow> string \<Rightarrow> pydict list \<Rightarrow> transmitter" where
  "example_transmitter sending dflt accts =
     \<lparr>config = \<lparr>mail_send = sending, default_account = dflt, accounts = accts\<rparr>,
      hostname = ''node1''\<rparr>"

definition test_mail :: "string \<Rightarrow> send_request" where
  "test_mail selector =
     \<lparr>to_address = ''root@localhost'', subject = ''Testmail'',
      body_text = ''Hello dear test mail receiver!'', account = selector\<rparr>"

definition example_externals :: externals where
  "example_externals =
     \<lparr>render_ext = pystache_render,
      run_process_ext = (\<lambda>cwd args stdin. Inr (PBool True, PStr []))\<rparr>"

definition lib_accepting :: smtp_lib where
  "lib_accepting a = Returns ''{}''"

definition lib_rejecting_login :: smtp_lib where
  "lib_rejecting_login a =
     (case a of
        Login u p \<Rightarrow> Raises (OtherError ''SMTPAuthenticationError'')
      | _ \<Rightarrow> Returns ''{}'')"


definition lib_refusing_recipients :: smtp_lib where
  "lib_refusing_recipients a =
     (case a of
        SendMessage m \<Rightarrow> Raises (OtherError ''SMTPRecipientsRefused'')
      | _ \<Rightarrow> Returns ''{}'')"

definition example_message :: mime_text where
  "example_message = build_message (test_mail ''default'') ''bot@localhost''"

section \<open>Observing the backends\<close>

text \<open>
  A delivery backend is touched by an effect that runs the external process or that fires
  a worker task; log lines touch none.
\<close>

fun is_backend :: "effect \<Rightarrow> bool" where
  "is_backend (Log lvl pretty args) = False"
| "is_backend (RunProcess cwd args stdin) = True"
| "is_backend (FireTask acct mail event channel) = True"

section \<open>Auxiliary facts\<close>


lemma filter_accounts_named:
  "\<forall>a\<in>set as. a ''name'' \<noteq> None \<Longrightarrow>
     filter_accounts n as = Inr (filter (\<lambda>a. a ''name'' = Some (PStr n)) as)"
  by (induction as) (auto simp: dict_item_def)

lemma filter_accounts_unnamed:
  "\<exists>a\<in>set as. a ''name'' = None \<Longrightarrow> filter_accounts n as = Inl (KeyError ''name'')"
proof (induction as)
  case Nil
  then show ?case by simp
next
  case (Cons a as)
  show ?case
  proof (cases "a ''name''")
    case None
    then show ?thesis by (simp add: dict_item_def)
  next
    case (Some v)
    with Cons.prems have "\<exists>a\<in>set as. a ''name'' = None" by auto
    then have "filter_accounts n as = Inl (KeyError ''name'')" by (rule Cons.IH)
    with Some show ?thesis by (simp add: dict_item_def)
  qed
qed

lemma first_of_filter:
  "(case filter P xs of [] \<Rightarrow> Inl e | a # _ \<Rightarrow> Inr a) =
     (case find P xs of None \<Rightarrow> Inl e | Some a \<Rightarrow> Inr a)"
  by (induction xs) auto

lemma resolve_account_find:
  "resolve_account cfg ev =
     (if \<exists>a\<in>set (accounts cfg). a ''name'' = None then Inl (KeyError ''name'')
      else (case find (\<lambda>a. a ''name'' = Some (PStr (account_name cfg ev))) (accounts cfg) of
              None \<Rightarrow> Inl IndexError
            | Some a \<Rightarrow> Inr a))"
proof (cases "\<exists>a\<in>set (accounts cfg). a ''name'' = None")
  case True
  then show ?thesis
    by (simp add: resolve_account_def filter_accounts_unnamed)
next
  case False
  then have "\<forall>a\<in>set (accounts cfg). a ''name'' \<noteq> None" by simp
  then show ?thesis using False
    by (simp add: resolve_account_def filter_accounts_named first_of_filter [symmetric] split: list.splits)
qed


lemma example_names:
  "acct_localhost ''name'' = Some (PStr ''localhost'')"
  "acct_relay ''name'' = Some (PStr ''relay'')"
  "acct_sendmail args ''name'' = Some (PStr ''local'')"
  "acct_duplicate ''name'' = Some (PStr ''localhost'')"
  by (simp_all add: acct_localhost_def acct_relay_def acct_sendmail_def acct_duplicate_def)

lemma example_config:
  "config (example_transmitter s d as) = \<lparr>mail_send = s, default_account = d, accounts = as\<rparr>"
  "hostname (example_transmitter s d as) = ''node1''"
  by (simp_all add: example_transmitter_def)

lemma test_mail_fields:
  "account (test_mail sel) = sel"
  "to_address (test_mail sel) = ''root@localhost''"
  "subject (test_mail sel) = ''Testmail''"
  "body_text (test_mail sel) = ''Hello dear test mail receiver!''"
  by (simp_all add: test_mail_def)



lemmas session_defs =
  smtp_session_def then_step_def connect_step_def tls_step_def login_step_def send_step_def
  call_lib_def dict_item_def Let_def

lemma session_raise:
  assumes "smtp_session lib cfg mail = (tr, lg, r)" and "a \<in> set tr" and "lib a = Raises e"
  shows "r = Inl e \<and> last tr = a"
  using assms
  by (auto simp: session_defs split: option.splits reply.splits if_splits)


lemma session_plan:
  assumes "cfg ''server'' = Some srv" and "cfg ''port'' = Some prt" and "cfg ''tls'' = Some t"
    and "cfg ''username'' = Some u" and "u \<noteq> PStr [] \<longrightarrow> cfg ''password'' = Some p"
    and "smtp_session lib cfg mail = (tr, lg, r)"
  shows "\<exists>rest. [Connect (truthy (dict_get cfg ''ssl'' (PBool True))) srv prt 30]
            @ (if truthy t then [StartTLS] else [])
            @ (if u \<noteq> PStr [] then [Login u p] else [])
            @ [SendMessage mail, Quit] = tr @ rest"
  using assms
  by (auto simp: session_defs split: option.splits reply.splits if_splits)

lemma session_complete:
  assumes "cfg ''server'' = Some srv" and "cfg ''port'' = Some prt" and "cfg ''tls'' = Some t"
    and "cfg ''username'' = Some u" and "u \<noteq> PStr [] \<longrightarrow> cfg ''password'' = Some p"
    and "smtp_session lib cfg mail = (tr, lg, r)"
    and "\<forall>a\<in>set tr. \<exists>x. lib a = Returns x"
  shows "tr = [Connect (truthy (dict_get cfg ''ssl'' (PBool True))) srv prt 30]
            @ (if truthy t then [StartTLS] else [])
            @ (if u \<noteq> PStr [] then [Login u p] else [])
            @ [SendMessage mail, Quit]
      \<and> lg = (if truthy t then ''Starting TLS\<newline>'' else [])
            @ (if u \<noteq> PStr [] then ''Logging in with '' @ py_str u @ ''\<newline>''
               else ''No username, trying anonymous access\<newline>'')
            @ ''Sending Mail\<newline>''
      \<and> (\<exists>resp. lib (SendMessage mail) = Returns resp \<and> r = Inr resp)"
  using assms
  by (auto simp: session_defs split: option.splits reply.splits if_splits)


lemma worker_trace:
  "fst (send_mail_worker lib cfg mail ev) = fst (smtp_session lib cfg mail)"
  by (cases "smtp_session lib cfg mail")
     (auto simp: send_mail_worker_def split: sum.splits py_error.splits)

lemma worker_result:
  assumes "smtp_session lib cfg mail = (tr, lg, r)"
  shows "snd (send_mail_worker lib cfg mail ev) =
     (case r of
        Inr resp \<Rightarrow> Inr (True, lg @ ''Server response:'' @ resp, ev)
      | Inl (SocketTimeout msg) \<Rightarrow>
          Inr (False, lg @ ''Could not send email: '' @ msg @ ''\<newline>'', ev)
      | Inl e \<Rightarrow> Inl e)"
  using assms by (auto simp: send_mail_worker_def split: sum.splits py_error.splits)

lemma example_keys:
  "acct_relay ''server'' = Some (PStr ''mail.example.org'')"
  "acct_relay ''port'' = Some (PInt 587)"
  "acct_relay ''ssl'' = Some (PBool False)"
  "acct_relay ''tls'' = Some (PBool True)"
  "acct_relay ''username'' = Some (PStr ''bot'')"
  "acct_relay ''password'' = Some (PStr ''secret'')"
  "acct_localhost ''server'' = Some (PStr ''localhost'')"
  "acct_localhost ''port'' = Some (PInt 25)"
  "acct_localhost ''ssl'' = Some (PBool False)"
  "acct_localhost ''tls'' = Some (PBool False)"
  "acct_localhost ''username'' = Some (PStr [])"
  by (simp_all add: acct_relay_def acct_localhost_def)

lemma send_mail_resolved:
  assumes "resolve_account (config self) ev = Inr acct"
    and "render_from ext (hostname self) acct = Inr sender"
  shows "send_mail ext self ev =
     (if mail_send (config self) = PBool True then
        (Log Verbose False [LStr ''MimeMail:'', LMime (build_message ev sender)]
           # Log Info False [LStr ''Sending mail to'', LStr (to_address ev)]
           # fst (deliver ext acct (build_message ev sender) ev),
         snd (deliver ext acct (build_message ev sender) ev))
      else
        ([Log Verbose False [LStr ''MimeMail:'', LMime (build_message ev sender)],
          Log Info True
            [LStr ''Not sending mail, here it is for debugging info:'',
             LMime (build_message ev sender)]],
         Inr ()))"
  using assms by (simp add: send_mail_def Let_def split: prod.splits)

lemma send_mail_gated:
  "mail_send (config self) \<noteq> PBool True \<Longrightarrow> e \<in> set (fst (send_mail ext self ev)) \<Longrightarrow>
     \<not> is_backend e"
  by (auto simp: send_mail_def Let_def split: sum.splits)

lemma build_message_fields:
  "build_message ev sender =
     \<lparr>payload = body_text ev,
      headers = [(''Subject'', subject ev), (''From'', sender), (''To'', to_address ev)]\<rparr>"
  by (simp add: build_message_def set_header_def)






lemma example_senders:
  "render_from example_externals ''node1'' acct_localhost = Inr ''bot@localhost''"
  "render_from example_externals ''node1'' acct_relay = Inr ''bot@mail.example.org''"
  "render_from example_externals ''node1'' (acct_sendmail arguments) = Inr ''bot@node1''"
  by (simp_all add: render_from_def dict_item_def example_externals_def render_def
      acct_localhost_def acct_relay_def acct_sendmail_def)

lemma example_resolution:
  "resolve_account \<lparr>mail_send = sending, default_account = ''local'',
      accounts = [acct_localhost, acct_sendmail arguments]\<rparr> (test_mail ''default'')
     = Inr (acct_sendmail arguments)"
  "resolve_account \<lparr>mail_send = sending, default_account = ''local'',
      accounts = [acct_localhost, acct_sendmail arguments]\<rparr> (test_mail ''localhost'')
     = Inr acct_localhost"
  "resolve_account \<lparr>mail_send = sending, default_account = ''localhost'',
      accounts = [acct_localhost, acct_relay]\<rparr> (test_mail ''relay'') = Inr acct_relay"
  by (simp_all add: resolve_account_find account_name_def example_names test_mail_fields)




section \<open>The claims\<close>

subsection \<open>Account resolution\<close>

text \<open>
  Claim C9.  The selector of a request is resolved in one step: the literal token
  \<^verbatim>\<open>default\<close> is replaced by the configured \<^verbatim>\<open>default_account\<close>, any other selector
  is used verbatim, and the registry is searched for the first entry whose \<^verbatim>\<open>name\<close> is
  exactly that string (an entry without a \<^verbatim>\<open>name\<close> makes the search raise
  \<^verbatim>\<open>KeyError\<close>, no entry of that name makes it raise \<^verbatim>\<open>IndexError\<close>).  Hence, for a
  request with selector \<^verbatim>\<open>default\<close>, setting \<^verbatim>\<open>default_account\<close> to \<open>d\<close> makes the
  request resolve to the entry named \<open>d\<close>.
\<close>

theorem selector_resolution:
  "resolve_account cfg ev =
     (if \<exists>a\<in>set (accounts cfg). a ''name'' = None then Inl (KeyError ''name'')
      else (case find (\<lambda>a. a ''name'' =
                Some (PStr (if account ev = ''default'' then default_account cfg else account ev)))
              (accounts cfg) of
              None \<Rightarrow> Inl IndexError
            | Some a \<Rightarrow> Inr a))
   \<and> (account ev = ''default'' \<longrightarrow>
        resolve_account (cfg\<lparr>default_account := d\<rparr>) ev =
          (if \<exists>a\<in>set (accounts cfg). a ''name'' = None then Inl (KeyError ''name'')
           else (case find (\<lambda>a. a ''name'' = Some (PStr d)) (accounts cfg) of
                   None \<Rightarrow> Inl IndexError
                 | Some a \<Rightarrow> Inr a)))"
  by (auto simp: resolve_account_find account_name_def)

theorem selector_resolution_witness:
  "resolve_account \<lparr>mail_send = PBool True, default_account = ''relay'',
       accounts = [acct_localhost, acct_relay]\<rparr> (test_mail ''default'') = Inr acct_relay
   \<and> resolve_account (\<lparr>mail_send = PBool True, default_account = ''relay'',
       accounts = [acct_localhost, acct_relay]\<rparr>\<lparr>default_account := ''localhost''\<rparr>)
       (test_mail ''default'') = Inr acct_localhost"
  using selector_resolution [of "\<lparr>mail_send = PBool True, default_account = ''relay'',
       accounts = [acct_localhost, acct_relay]\<rparr>" "test_mail ''default''" "''localhost''"]
  by (simp add: example_names test_mail_fields)



text \<open>
  Claim C1, as amended.  When no account of the registry is named like the resolved
  selector (every entry having a \<^verbatim>\<open>name\<close>), \<^verbatim>\<open>send_mail\<close> raises \<^verbatim>\<open>IndexError\<close>
  before it has written a log line, run a process or fired a task; the exception is not
  caught in the dispatcher and the dispatcher itself logs nothing.
\<close>

theorem unknown_account_raises:
  assumes "\<forall>a\<in>set (accounts (config self)).
             \<exists>v. a ''name'' = Some v \<and> v \<noteq> PStr (account_name (config self) ev)"
  shows "send_mail ext self ev = ([], Inl IndexError)"
proof -
  let ?P = "\<lambda>b. b ''name'' = Some (PStr (account_name (config self) ev))"
  have "\<not> (\<exists>b\<in>set (accounts (config self)). b ''name'' = None)"
    using assms by auto
  moreover have "find ?P (accounts (config self)) = None"
    using assms by (auto simp: find_None_iff)
  ultimately have "resolve_account (config self) ev = Inl IndexError"
    by (simp add: resolve_account_find)
  then show ?thesis by (simp add: send_mail_def)
qed

theorem unknown_account_raises_witness:
  "send_mail example_externals (example_transmitter (PBool True) ''localhost'' [acct_relay])
     (test_mail ''default'') = ([], Inl IndexError)"
  by (rule unknown_account_raises)
     (simp add: example_names example_config test_mail_fields account_name_def)

text \<open>
  The claim as first stated also has the failure logged as an error and kept from
  propagating out of the dispatcher.  For a selector that names no account the effect list
  is empty and the result is the raised exception.
\<close>

theorem unknown_account_propagates_unlogged:
  "send_mail example_externals
     (example_transmitter (PBool True) ''localhost'' [acct_localhost, acct_relay])
     (test_mail ''backup'') = ([], Inl IndexError)"
  by (simp add: send_mail_def resolve_account_def account_name_def dict_item_def
      example_names example_config test_mail_fields)

subsection \<open>The direct SMTP backend\<close>

text \<open>
  Claim C6.  The worker's calls on the SMTP library follow one fixed order: the session to
  \<^verbatim>\<open>config['server']\<close>, \<^verbatim>\<open>config['port']\<close> is opened with timeout 30, through
  \<^verbatim>\<open>SMTP_SSL\<close> when \<^verbatim>\<open>config.get('ssl', True)\<close> is true and through plain \<^verbatim>\<open>SMTP\<close>
  otherwise; \<^verbatim>\<open>starttls\<close> follows directly, exactly when \<^verbatim>\<open>config['tls']\<close> is true;
  \<^verbatim>\<open>login\<close> follows exactly when the username differs from the empty string; then the
  message is submitted and the session is quit.  Whatever the library answers, the calls
  made are an initial part of this sequence, and when every call made returns they are the
  whole sequence.
\<close>

theorem smtp_session_order:
  assumes "cfg ''server'' = Some srv" and "cfg ''port'' = Some prt" and "cfg ''tls'' = Some t"
    and "cfg ''username'' = Some u" and "u \<noteq> PStr [] \<longrightarrow> cfg ''password'' = Some p"
    and "plan = [Connect (truthy (dict_get cfg ''ssl'' (PBool True))) srv prt 30]
            @ (if truthy t then [StartTLS] else [])
            @ (if u \<noteq> PStr [] then [Login u p] else [])
            @ [SendMessage mail, Quit]"
  shows "(\<exists>rest. plan = fst (send_mail_worker lib cfg mail ev) @ rest)
    \<and> ((\<forall>c\<in>set (fst (send_mail_worker lib cfg mail ev)). \<exists>x. lib c = Returns x)
         \<longrightarrow> fst (send_mail_worker lib cfg mail ev) = plan)"
proof -
  obtain tr lg r where s: "smtp_session lib cfg mail = (tr, lg, r)"
    by (cases "smtp_session lib cfg mail") auto
  then have tr: "fst (send_mail_worker lib cfg mail ev) = tr"
    by (simp add: worker_trace)
  have "\<exists>rest. plan = tr @ rest"
    unfolding assms(6) by (rule session_plan [OF assms(1-5) s])
  moreover have "tr = plan" if "\<forall>c\<in>set tr. \<exists>x. lib c = Returns x"
    unfolding assms(6) using session_complete [OF assms(1-5) s that] by simp
  ultimately show ?thesis by (simp add: tr)
qed

theorem smtp_session_order_witness:
  "fst (send_mail_worker lib_accepting acct_relay example_message (test_mail ''relay'')) =
     [Connect False (PStr ''mail.example.org'') (PInt 587) 30, StartTLS,
      Login (PStr ''bot'') (PStr ''secret''), SendMessage example_message, Quit]"
  using smtp_session_order [where cfg = acct_relay and lib = lib_accepting
      and mail = example_message and ev = "test_mail ''relay''"
      and srv = "PStr ''mail.example.org''" and prt = "PInt 587" and t = "PBool True"
      and u = "PStr ''bot''" and p = "PStr ''secret''", OF _ _ _ _ _ refl]
  by (simp add: example_keys dict_get_def lib_accepting_def)



text \<open>
  Claim C2, as amended.  Only a timeout is turned into a returned outcome.  When a call the
  worker makes on the library raises anything else (a rejected login, a refused
  submission), the exception leaves \<^verbatim>\<open>send_mail_worker\<close> and no outcome is returned.
\<close>

theorem other_failures_propagate:
  assumes "a \<in> set (fst (send_mail_worker lib cfg mail ev))"
    and "lib a = Raises e"
    and "\<forall>msg. e \<noteq> SocketTimeout msg"
  shows "snd (send_mail_worker lib cfg mail ev) = Inl e"
proof -
  obtain tr lg r where s: "smtp_session lib cfg mail = (tr, lg, r)"
    by (cases "smtp_session lib cfg mail") auto
  with assms(1) have "a \<in> set tr" by (simp add: worker_trace)
  from session_raise [OF s this assms(2)] have "r = Inl e" by simp
  with assms(3) show ?thesis
    using worker_result [OF s, of ev] by (cases e) simp_all
qed

theorem other_failures_propagate_witness:
  "snd (send_mail_worker lib_refusing_recipients acct_localhost example_message
     (test_mail ''default'')) = Inl (OtherError ''SMTPRecipientsRefused'')"
  by (rule other_failures_propagate [where a = "SendMessage example_message"])
     (simp_all add: worker_trace session_defs example_keys lib_refusing_recipients_def)

text \<open>
  The claim as first stated has such failures reported like a timeout.  With a server that
  rejects the login the worker returns nothing: the exception propagates after the
  connection, the upgrade and the login attempt.
\<close>

theorem login_failure_leaves_worker:
  "send_mail_worker lib_rejecting_login acct_relay example_message (test_mail ''relay'') =
     ([Connect False (PStr ''mail.example.org'') (PInt 587) 30, StartTLS,
       Login (PStr ''bot'') (PStr ''secret'')],
      Inl (OtherError ''SMTPAuthenticationError''))"
  by (simp add: send_mail_worker_def session_defs example_keys lib_rejecting_login_def
      dict_get_def)

subsection \<open>The dispatcher\<close>

text \<open>
  Claim C4.  While \<^verbatim>\<open>mail_send\<close> is anything but \<^verbatim>\<open>True\<close>, dispatch touches no
  delivery backend, whatever the registry and the resolved account hold: no process is run
  and no worker task is fired, so no delivery outcome can arise.  When the account resolves
  and the sender address renders, the dispatch consists of exactly two log lines, each
  carrying the complete message (body, subject, rendered sender, recipient), and returns.
\<close>

theorem send_gate_closed:
  assumes "mail_send (config self) \<noteq> PBool True"
  shows "(\<forall>e\<in>set (fst (send_mail ext self ev)). \<not> is_backend e)
    \<and> (resolve_account (config self) ev = Inr acct
         \<and> render_from ext (hostname self) acct = Inr sender \<longrightarrow>
       send_mail ext self ev =
         ([Log Verbose False
             [LStr ''MimeMail:'',
              LMime \<lparr>payload = body_text ev,
                     headers = [(''Subject'', subject ev), (''From'', sender),
                                (''To'', to_address ev)]\<rparr>],
           Log Info True
             [LStr ''Not sending mail, here it is for debugging info:'',
              LMime \<lparr>payload = body_text ev,
                     headers = [(''Subject'', subject ev), (''From'', sender),
                                (''To'', to_address ev)]\<rparr>]],
          Inr ()))"
proof (intro conjI ballI impI)
  fix e assume "e \<in> set (fst (send_mail ext self ev))"
  with assms show "\<not> is_backend e" by (rule send_mail_gated)
next
  assume "resolve_account (config self) ev = Inr acct
    \<and> render_from ext (hostname self) acct = Inr sender"
  then show "send_mail ext self ev =
         ([Log Verbose False
             [LStr ''MimeMail:'',
              LMime \<lparr>payload = body_text ev,
                     headers = [(''Subject'', subject ev), (''From'', sender),
                                (''To'', to_address ev)]\<rparr>],
           Log Info True
             [LStr ''Not sending mail, here it is for debugging info:'',
              LMime \<lparr>payload = body_text ev,
                     headers = [(''Subject'', subject ev), (''From'', sender),
                                (''To'', to_address ev)]\<rparr>]],
          Inr ())"
    using assms by (simp add: send_mail_resolved build_message_fields)
qed

theorem send_gate_closed_witness:
  "send_mail example_externals
     (example_transmitter (PBool False) ''local'' [acct_localhost, acct_sendmail ''-t -oi''])
     (test_mail ''default'') =
     ([Log Verbose False
         [LStr ''MimeMail:'',
          LMime \<lparr>payload = ''Hello dear test mail receiver!'',
                 headers = [(''Subject'', ''Testmail''), (''From'', ''bot@node1''),
                            (''To'', ''root@localhost'')]\<rparr>],
       Log Info True
         [LStr ''Not sending mail, here it is for debugging info:'',
          LMime \<lparr>payload = ''Hello dear test mail receiver!'',
                 headers = [(''Subject'', ''Testmail''), (''From'', ''bot@node1''),
                            (''To'', ''root@localhost'')]\<rparr>]],
      Inr ())"
  using send_gate_closed [where self = "example_transmitter (PBool False) ''local''
        [acct_localhost, acct_sendmail ''-t -oi'']"
      and ext = example_externals and ev = "test_mail ''default''"
      and acct = "acct_sendmail ''-t -oi''" and sender = "''bot@node1''"]
  by (simp add: example_resolution example_senders example_config test_mail_fields)







subsection \<open>The address renderer\<close>



end
